theory Spec2Isabelle
  imports Main
begin

section \<open>Shared vocabulary: errors and connection states\<close>

text \<open>
  A thrown JavaScript value is an error object; the code only looks at its class
  (\<^verbatim>\<open>instanceof SqlxError\<close>) and at its \<^verbatim>\<open>message\<close>. A rejected promise and
  a synchronous \<^verbatim>\<open>throw\<close> are both the left injection of \<open>error + 'a\<close>.
\<close>

datatype error = Error string | SqlxError string | MysqlError string

fun message :: "error \<Rightarrow> string" where
  "message (Error m) = m"
| "message (SqlxError m) = m"
| "message (MysqlError m) = m"

fun instanceof_SqlxError :: "error \<Rightarrow> bool" where
  "instanceof_SqlxError (SqlxError m) = True"
| "instanceof_SqlxError e = False"

text \<open>
  Modelled from the spec: the enum \<^verbatim>\<open>ConnectionState\<close> is declared in
  \<^verbatim>\<open>connection.ts\<close>, which is not among the sources. The spec gives a connection
  the states Disconnected, Connected and Closed; the code names \<^verbatim>\<open>CONNECTED\<close> and
  \<^verbatim>\<open>CLOSED\<close>.
\<close>

datatype ConnectionState = DISCONNECTED | CONNECTED | CLOSED


section \<open>The client facade (\<^verbatim>\<open>src/unnamed/part_000\<close>)\<close>

subsection \<open>Configuration\<close>

text \<open>
  An optional property of a JavaScript object is absent, present with the value
  \<^verbatim>\<open>undefined\<close>, or present with a value. The object spread
  \<^verbatim>\<open>{ k: d, ...config }\<close> keeps the default \<open>d\<close> only where \<open>config\<close> has no own
  property \<open>k\<close>. Numbers are modelled as integers (no \<^verbatim>\<open>NaN\<close>, no fractions).
\<close>

datatype 'a optional = Absent | Undefined | Val 'a

datatype TLSMode = DISABLED | VERIFY_IDENTITY

record TLSConfig =
  mode :: "TLSMode optional"
  caCerts :: "string list optional"

record ClientConfig =
  hostname :: "string optional"
  socketPath :: "string optional"
  username :: "string optional"
  password :: "string optional"
  port :: "int optional"
  db :: "string optional"
  debug :: "bool optional"
  timeout :: "int optional"
  poolSize :: "int optional"
  idleTimeout :: "int optional"
  charset :: "string optional"
  tls :: "TLSConfig optional"

text \<open>\<^verbatim>\<open>config: ClientConfig = {}\<close>\<close>

definition empty_config :: ClientConfig where
  "empty_config =
     \<lparr>hostname = Absent, socketPath = Absent, username = Absent, password = Absent,
      port = Absent, db = Absent, debug = Absent, timeout = Absent, poolSize = Absent,
      idleTimeout = Absent, charset = Absent, tls = Absent\<rparr>"

text \<open>One key of \<^verbatim>\<open>{ k: d, ...config }\<close> and of \<^verbatim>\<open>{ ...config }\<close>.\<close>

fun spread_over :: "'a \<Rightarrow> 'a optional \<Rightarrow> 'a optional" where
  "spread_over d Absent = Val d"
| "spread_over d p = p"

text \<open>\<^verbatim>\<open>x || d\<close> on an optional number: \<open>undefined\<close> and \<open>0\<close> are falsy.\<close>

fun or_else :: "int optional \<Rightarrow> int \<Rightarrow> int" where
  "or_else (Val n) d = (if n = 0 then d else n)"
| "or_else p d = d"

text \<open>
  The class \<^verbatim>\<open>ConnectionPool\<close> is declared in \<^verbatim>\<open>pool.ts\<close> of the same revision
  as the facade, which is not among the sources. The facade constructs it with a size and
  the bound method \<^verbatim>\<open>createConnection\<close>; the model keeps the size it was constructed
  with. What its \<^verbatim>\<open>pop\<close> hands out is a parameter of the operations below.
\<close>

record ConnectionPool =
  constructed_size :: int

record Client =
  config :: ClientConfig
  priv_pool :: "ConnectionPool option"

definition new_Client :: Client where
  "new_Client = \<lparr>config = empty_config, priv_pool = None\<rparr>"

text \<open>
  \<^verbatim>\<open>connect(config)\<close>: the defaults, overridden by the own properties of
  \<open>config\<close>; \<^verbatim>\<open>Object.freeze\<close> changes nothing in a model whose values are immutable;
  the pool is constructed from the configuration just stored.
\<close>

definition Client_connect :: "Client \<Rightarrow> ClientConfig \<Rightarrow> Client" where
  "Client_connect this cfg =
     (let this1 = this\<lparr>config :=
            \<lparr>hostname = spread_over ''127.0.0.1'' (hostname cfg),
             socketPath = socketPath cfg,
             username = spread_over ''root'' (username cfg),
             password = password cfg,
             port = spread_over 3306 (port cfg),
             db = db cfg,
             debug = debug cfg,
             timeout = spread_over (30 * 1000) (timeout cfg),
             poolSize = spread_over 1 (poolSize cfg),
             idleTimeout = spread_over (4 * 3600 * 1000) (idleTimeout cfg),
             charset = charset cfg,
             tls = tls cfg\<rparr>\<rparr>
      in this1\<lparr>priv_pool :=
            Some \<lparr>constructed_size = or_else (poolSize (config this1)) 10\<rparr>\<rparr>)"


subsection \<open>The borrowed connection\<close>

text \<open>
  A borrowed \<^verbatim>\<open>PoolConnection\<close> is an object with a readable \<open>state\<close>. Everything
  the facade and the caller's work do with it is a method call; the model appends each
  call to the connection's \<open>history\<close>, together with the line the facade hands to the
  logger. The server and the network decide how a statement ends and in which state it
  leaves the connection: they are the parameter \<open>srv\<close>, which sees the connection with
  the statement already recorded.

  \<^verbatim>\<open>returnToPool\<close> and \<^verbatim>\<open>removeFromPool\<close> belong to the absent
  \<^verbatim>\<open>pool.ts\<close>; the model records that they were called and takes them, like the
  logger, to return normally.
\<close>

type_synonym params = "string list"

datatype request = Execute string "params option" | Query string "params option"

datatype effect = Called request | LoggerInfo string | ReturnToPool | RemoveFromPool

datatype ExecuteResult = ExecuteResult "string list"

record PoolConnection =
  state :: ConnectionState
  history :: "effect list"

type_synonym server = "PoolConnection \<Rightarrow> (error + ExecuteResult) \<times> ConnectionState"

definition send :: "server \<Rightarrow> request \<Rightarrow> PoolConnection \<Rightarrow> (error + ExecuteResult) \<times> PoolConnection" where
  "send srv rq c =
     (let c1 = c\<lparr>history := history c @ [Called rq]\<rparr>
      in case srv c1 of (r, s) \<Rightarrow> (r, c1\<lparr>state := s\<rparr>))"

definition execute :: "server \<Rightarrow> string \<Rightarrow> params option \<Rightarrow> PoolConnection \<Rightarrow> (error + ExecuteResult) \<times> PoolConnection" where
  "execute srv sql ps c = send srv (Execute sql ps) c"

definition query :: "server \<Rightarrow> string \<Rightarrow> params option \<Rightarrow> PoolConnection \<Rightarrow> (error + ExecuteResult) \<times> PoolConnection" where
  "query srv sql ps c = send srv (Query sql ps) c"

definition logger_info :: "string \<Rightarrow> PoolConnection \<Rightarrow> PoolConnection" where
  "logger_info line c = c\<lparr>history := history c @ [LoggerInfo line]\<rparr>"

definition returnToPool :: "PoolConnection \<Rightarrow> PoolConnection" where
  "returnToPool c = c\<lparr>history := history c @ [ReturnToPool]\<rparr>"

definition removeFromPool :: "PoolConnection \<Rightarrow> PoolConnection" where
  "removeFromPool c = c\<lparr>history := history c @ [RemoveFromPool]\<rparr>"

text \<open>
  A \<^verbatim>\<open>TransactionProcessor<T>\<close> is caller code that receives the connection. It
  returns a value, throws, or sends a statement and goes on with what the statement
  gave (a result, or an error that it may catch or let through).
\<close>

datatype 'a processor =
    Return 'a
  | Throw error
  | Await request "(error + ExecuteResult) \<Rightarrow> 'a processor"

primrec run :: "server \<Rightarrow> 'a processor \<Rightarrow> PoolConnection \<Rightarrow> (error + 'a) \<times> PoolConnection" where
  "run srv (Return v) = (\<lambda>c. (Inr v, c))"
| "run srv (Throw e) = (\<lambda>c. (Inl e, c))"
| "run srv (Await rq k) = (\<lambda>c. case send srv rq c of (r, c1) \<Rightarrow> run srv (k r) c1)"

text \<open>The statements a processor sends when it runs on connection \<open>c\<close>.\<close>

primrec statements :: "server \<Rightarrow> 'a processor \<Rightarrow> PoolConnection \<Rightarrow> request list" where
  "statements srv (Return v) = (\<lambda>c. [])"
| "statements srv (Throw e) = (\<lambda>c. [])"
| "statements srv (Await rq k) = (\<lambda>c. case send srv rq c of (r, c1) \<Rightarrow> rq # statements srv (k r) c1)"


subsection \<open>\<^verbatim>\<open>useConnection\<close>, \<^verbatim>\<open>query\<close>, \<^verbatim>\<open>execute\<close>, \<^verbatim>\<open>transaction\<close>\<close>

text \<open>
  \<^verbatim>\<open>await this._pool.pop()\<close> settles with a connection, settles with an error, or
  never settles (\<open>None\<close>); which one is the parameter \<open>pop\<close>. The result of
  \<^verbatim>\<open>useConnection\<close> is \<open>None\<close> when it never settles, and otherwise what it
  returned or threw together with the borrowed connection, if there was one.
\<close>

type_synonym pool_pop = "ConnectionPool \<Rightarrow> (error + PoolConnection) option"

text \<open>The \<^verbatim>\<open>finally\<close> block of \<^verbatim>\<open>useConnection\<close>.\<close>

definition useConnection_finally :: "PoolConnection \<Rightarrow> PoolConnection" where
  "useConnection_finally connection =
     (if state connection = CLOSED then removeFromPool connection
      else returnToPool connection)"

definition Client_useConnection ::
  "pool_pop \<Rightarrow> Client \<Rightarrow> (PoolConnection \<Rightarrow> (error + 'a) \<times> PoolConnection)
     \<Rightarrow> ((error + 'a) \<times> PoolConnection option) option" where
  "Client_useConnection pop this fn =
     (case priv_pool this of
        None \<Rightarrow> Some (Inl (MysqlError ''Unconnected''), None)
      | Some pool \<Rightarrow>
          (case pop pool of
             None \<Rightarrow> None
           | Some (Inl e) \<Rightarrow> Some (Inl e, None)
           | Some (Inr connection) \<Rightarrow>
               (case fn connection of
                  (r, c1) \<Rightarrow> Some (r, Some (useConnection_finally c1)))))"

definition Client_query ::
  "pool_pop \<Rightarrow> server \<Rightarrow> Client \<Rightarrow> string \<Rightarrow> params option
     \<Rightarrow> ((error + ExecuteResult) \<times> PoolConnection option) option" where
  "Client_query pop srv this sql ps =
     Client_useConnection pop this (\<lambda>connection. query srv sql ps connection)"

definition Client_execute ::
  "pool_pop \<Rightarrow> server \<Rightarrow> Client \<Rightarrow> string \<Rightarrow> params option
     \<Rightarrow> ((error + ExecuteResult) \<times> PoolConnection option) option" where
  "Client_execute pop srv this sql ps =
     Client_useConnection pop this (\<lambda>connection. execute srv sql ps connection)"

text \<open>The \<^verbatim>\<open>catch (error)\<close> block of \<^verbatim>\<open>transaction\<close>.\<close>

definition transaction_catch :: "server \<Rightarrow> error \<Rightarrow> PoolConnection \<Rightarrow> (error + 'a) \<times> PoolConnection" where
  "transaction_catch srv err connection =
     (if state connection = CONNECTED then
        (case execute srv ''ROLLBACK'' None
                (logger_info (''ROLLBACK: '' @ message err) connection) of
           (Inl e2, c2) \<Rightarrow> (Inl e2, c2)
         | (Inr _, c2) \<Rightarrow> (Inl err, c2))
      else (Inl err, connection))"

text \<open>The function that \<^verbatim>\<open>transaction\<close> passes to \<^verbatim>\<open>useConnection\<close>.\<close>

definition transaction_body :: "server \<Rightarrow> 'a processor \<Rightarrow> PoolConnection \<Rightarrow> (error + 'a) \<times> PoolConnection" where
  "transaction_body srv processor connection =
     (case execute srv ''BEGIN'' None connection of
        (Inl err, c1) \<Rightarrow> transaction_catch srv err c1
      | (Inr _, c1) \<Rightarrow>
          (case run srv processor c1 of
             (Inl err, c2) \<Rightarrow> transaction_catch srv err c2
           | (Inr result, c2) \<Rightarrow>
               (case execute srv ''COMMIT'' None c2 of
                  (Inl err, c3) \<Rightarrow> transaction_catch srv err c3
                | (Inr _, c3) \<Rightarrow> (Inr result, c3))))"

definition Client_transaction ::
  "pool_pop \<Rightarrow> server \<Rightarrow> Client \<Rightarrow> 'a processor
     \<Rightarrow> ((error + 'a) \<times> PoolConnection option) option" where
  "Client_transaction pop srv this processor =
     Client_useConnection pop this (transaction_body srv processor)"


section \<open>The connection pool (\<^verbatim>\<open>src/lib/pool.ts\<close>)\<close>

subsection \<open>Objects and the world they live in\<close>

text \<open>
  A \<^verbatim>\<open>MysqlConnection\<close> is an object shared by reference: the pool's idle
  collection and a caller can hold the same one. The model keeps the connections in a
  store, addressed by the order in which \<^verbatim>\<open>new MysqlConnection\<close> created them.

  \<^verbatim>\<open>connectionOptions.lazyInitialization\<close> is only read through \<^verbatim>\<open>!\<close>, so the
  model keeps its truthiness. \<open>stack_maxSize\<close> is the size the options give the idle
  collection.
\<close>

type_synonym conn_ref = nat

record MysqlClientPoolOptions =
  lazyInitialization :: bool
  stack_maxSize :: nat

text \<open>
  \<open>release_assigned\<close> tells whether \<^verbatim>\<open>client.release = () => this.release(client)\<close>
  has replaced, on this instance, the method of the class.
\<close>

record MysqlPoolClient =
  connection :: conn_ref
  queryOptions :: MysqlClientPoolOptions
  release_assigned :: bool

definition new_MysqlPoolClient :: "conn_ref \<Rightarrow> MysqlClientPoolOptions \<Rightarrow> MysqlPoolClient" where
  "new_MysqlPoolClient conn opts =
     \<lparr>connection = conn, queryOptions = opts, release_assigned = False\<rparr>"

datatype event =
    MysqlConnectionConnectEvent MysqlPoolClient
  | MysqlConnectionCloseEvent MysqlPoolClient
  | MysqlPoolConnectionAcquireEvent MysqlPoolClient
  | MysqlPoolConnectionReleaseEvent MysqlPoolClient
  | MysqlPoolConnectionDestroyEvent MysqlPoolClient

text \<open>
  What the pool does to the outside, in order. A dispatched event is recorded with the
  idle collection as a listener finds it at that moment, since listeners run inside
  \<^verbatim>\<open>dispatchEvent\<close>.
\<close>

datatype action =
    Dispatched event "MysqlPoolClient list"
  | ConnectionConnect conn_ref
  | ConnectionClose conn_ref
  | LoggerDebug string

record world =
  next_ref :: conn_ref
  connections :: "conn_ref \<Rightarrow> ConnectionState option"
  trace :: "action list"




definition connection_close :: "conn_ref \<Rightarrow> world \<Rightarrow> world" where
  "connection_close i w =
     w\<lparr>connections := (connections w)(i \<mapsto> CLOSED),
       trace := trace w @ [ConnectionClose i]\<rparr>"

definition logger_debug :: "string \<Rightarrow> world \<Rightarrow> world" where
  "logger_debug line w = w\<lparr>trace := trace w @ [LoggerDebug line]\<rparr>"

text \<open>
  The class \<^verbatim>\<open>SqlxDeferredStack\<close> comes from the package \<^verbatim>\<open>@halvardm/sqlx\<close>.
  The pool reads its \<open>maxSize\<close> and its \<open>elements\<close> and calls its \<^verbatim>\<open>push\<close> and
  \<^verbatim>\<open>pop\<close>, which are parameters of the pool's operations: a push returns the new
  elements or throws; a pop never settles (\<open>None\<close>), or settles with an error or with a
  client and the elements that remain.
\<close>

record SqlxDeferredStack =
  maxSize :: nat
  elements :: "MysqlPoolClient list"

type_synonym stack_push = "MysqlPoolClient \<Rightarrow> SqlxDeferredStack \<Rightarrow> error + MysqlPoolClient list"

type_synonym stack_pop =
  "SqlxDeferredStack \<Rightarrow> (error + MysqlPoolClient \<times> MysqlPoolClient list) option"


definition SqlxDeferredStack_push :: stack_push where
  "SqlxDeferredStack_push client stack =
     (if maxSize stack \<le> length (elements stack)
      then Inl (SqlxError ''Max pool size reached'')
      else Inr (elements stack @ [client]))"

definition SqlxDeferredStack_pop :: stack_pop where
  "SqlxDeferredStack_pop stack =
     (if elements stack = [] then None
      else Some (Inr (last (elements stack), butlast (elements stack))))"


subsection \<open>\<^verbatim>\<open>MysqlClientPool\<close>\<close>

text \<open>
  \<^verbatim>\<open>queryOptions\<close> is the same object as \<^verbatim>\<open>connectionOptions\<close>; the event
  target is the \<open>trace\<close> of the world.
\<close>

record MysqlClientPool =
  connectionUrl :: string
  connectionOptions :: MysqlClientPoolOptions
  deferredStack :: SqlxDeferredStack
  connected :: bool


definition dispatchEvent :: "event \<Rightarrow> MysqlClientPool \<Rightarrow> world \<Rightarrow> world" where
  "dispatchEvent ev this w =
     w\<lparr>trace := trace w @ [Dispatched ev (elements (deferredStack this))]\<rparr>"

definition set_elements :: "MysqlPoolClient list \<Rightarrow> MysqlClientPool \<Rightarrow> MysqlClientPool" where
  "set_elements es this = this\<lparr>deferredStack := (deferredStack this)\<lparr>elements := es\<rparr>\<rparr>"




text \<open>The loop of \<^verbatim>\<open>close\<close> over \<^verbatim>\<open>this.deferredStack.elements\<close>.\<close>

fun close_loop :: "MysqlClientPool \<Rightarrow> MysqlPoolClient list \<Rightarrow> world \<Rightarrow> world" where
  "close_loop this [] w = w"
| "close_loop this (client # rest) w =
     close_loop this rest
       (connection_close (connection client)
          (dispatchEvent (MysqlConnectionCloseEvent client) this w))"

definition MysqlClientPool_close :: "MysqlClientPool \<Rightarrow> world \<Rightarrow> MysqlClientPool \<times> world" where
  "MysqlClientPool_close this w =
     (let this1 = this\<lparr>connected := False\<rparr>
      in (this1, close_loop this1 (elements (deferredStack this1)) w))"

definition MysqlClientPool_acquire ::
  "stack_pop \<Rightarrow> MysqlClientPool \<Rightarrow> world
     \<Rightarrow> ((error + MysqlPoolClient) \<times> MysqlClientPool \<times> world) option" where
  "MysqlClientPool_acquire pop this w =
     (case pop (deferredStack this) of
        None \<Rightarrow> None
      | Some (Inl e) \<Rightarrow> Some (Inl e, this, w)
      | Some (Inr (client, es)) \<Rightarrow>
          (let this1 = set_elements es this
           in Some (Inr client, this1,
                    dispatchEvent (MysqlPoolConnectionAcquireEvent client) this1 w)))"

definition MysqlClientPool_release ::
  "stack_push \<Rightarrow> MysqlClientPool \<Rightarrow> MysqlPoolClient \<Rightarrow> world
     \<Rightarrow> (error + unit) \<times> MysqlClientPool \<times> world" where
  "MysqlClientPool_release push this client w =
     (let w1 = dispatchEvent (MysqlPoolConnectionReleaseEvent client) this w
      in case push client (deferredStack this) of
           Inr es \<Rightarrow> (Inr (), set_elements es this, w1)
         | Inl e \<Rightarrow>
             (if instanceof_SqlxError e \<and> message e = ''Max pool size reached''
              then (Inl e, this,
                    connection_close (connection client) (logger_debug (message e) w1))
              else (Inl e, this, w1)))"

definition MysqlClientPool_destroy ::
  "MysqlClientPool \<Rightarrow> MysqlPoolClient \<Rightarrow> world \<Rightarrow> world" where
  "MysqlClientPool_destroy this client w =
     connection_close (connection client)
       (dispatchEvent (MysqlPoolConnectionDestroyEvent client) this w)"

definition MysqlClientPool_asyncDispose :: "MysqlClientPool \<Rightarrow> world \<Rightarrow> MysqlClientPool \<times> world" where
  "MysqlClientPool_asyncDispose this w = MysqlClientPool_close this w"


subsection \<open>\<^verbatim>\<open>MysqlPoolClient\<close>\<close>

text \<open>
  A client's \<^verbatim>\<open>release\<close> is the method of the class, which throws, unless the pool
  that created the client has assigned its own, which forwards to the pool.
\<close>

definition MysqlPoolClient_release ::
  "stack_push \<Rightarrow> MysqlPoolClient \<Rightarrow> MysqlClientPool \<Rightarrow> world
     \<Rightarrow> (error + unit) \<times> MysqlClientPool \<times> world" where
  "MysqlPoolClient_release push client pool w =
     (if release_assigned client then MysqlClientPool_release push pool client w
      else (Inl (Error ''Method not implemented.''), pool, w))"

definition MysqlPoolClient_asyncDispose ::
  "stack_push \<Rightarrow> MysqlPoolClient \<Rightarrow> MysqlClientPool \<Rightarrow> world
     \<Rightarrow> (error + unit) \<times> MysqlClientPool \<times> world" where
  "MysqlPoolClient_asyncDispose push client pool w = MysqlPoolClient_release push client pool w"


section \<open>Concrete clients, servers, pools and worlds\<close>

text \<open>The inputs on which the theorems below are run.\<close>

definition idle_connection :: PoolConnection where
  "idle_connection = \<lparr>state = CONNECTED, history = []\<rparr>"

definition pop_idle :: pool_pop where
  "pop_idle pool = Some (Inr idle_connection)"

definition connected_client :: Client where
  "connected_client = Client_connect new_Client empty_config"

text \<open>A server on which every statement succeeds.\<close>

definition healthy_server :: server where
  "healthy_server c = (Inr (ExecuteResult []), CONNECTED)"

text \<open>A server that refuses \<^verbatim>\<open>COMMIT\<close>.\<close>

definition commit_failing_server :: server where
  "commit_failing_server c =
     (if last (history c) = Called (Execute ''COMMIT'' None)
      then (Inl (Error ''Deadlock found when trying to get lock''), CONNECTED)
      else (Inr (ExecuteResult []), CONNECTED))"

text \<open>A server that goes away while it handles \<^verbatim>\<open>ROLLBACK\<close>.\<close>

definition rollback_failing_server :: server where
  "rollback_failing_server c =
     (if last (history c) = Called (Execute ''ROLLBACK'' None)
      then (Inl (MysqlError ''Lost connection to MySQL server during query''), CLOSED)
      else (Inr (ExecuteResult []), CONNECTED))"

text \<open>A server that accepts \<^verbatim>\<open>BEGIN\<close> and drops the connection at the next statement.\<close>

definition dropping_server :: server where
  "dropping_server c =
     (if last (history c) = Called (Execute ''BEGIN'' None)
      then (Inr (ExecuteResult []), CONNECTED)
      else (Inl (Error ''Connection reset by peer''), CLOSED))"

text \<open>
  A server that accepts \<^verbatim>\<open>BEGIN\<close>, rejects the insertion and then rejects
  \<^verbatim>\<open>ROLLBACK\<close> as well, the connection staying up.
\<close>

definition strict_server :: server where
  "strict_server c =
     (if last (history c) = Called (Execute ''BEGIN'' None)
      then (Inr (ExecuteResult []), CONNECTED)
      else if last (history c) = Called (Execute ''ROLLBACK'' None)
      then (Inl (Error ''Lock wait timeout exceeded''), CONNECTED)
      else (Inl (Error ''Duplicate entry''), CONNECTED))"

text \<open>A processor that inserts a row and lets a failure of the insertion through.\<close>

definition insert_row :: "unit processor" where
  "insert_row =
     Await (Execute ''INSERT INTO t VALUES (1)'' None)
       (\<lambda>r. case r of Inl e \<Rightarrow> Throw e | Inr _ \<Rightarrow> Return ())"



definition eager_two :: MysqlClientPoolOptions where
  "eager_two = \<lparr>lazyInitialization = False, stack_maxSize = 2\<rparr>"

definition eager_three :: MysqlClientPoolOptions where
  "eager_three = \<lparr>lazyInitialization = False, stack_maxSize = 3\<rparr>"

text \<open>The client that \<^verbatim>\<open>connect\<close> creates around connection \<open>i\<close>.\<close>

definition client_of :: "MysqlClientPoolOptions \<Rightarrow> conn_ref \<Rightarrow> MysqlPoolClient" where
  "client_of opts i = \<lparr>connection = i, queryOptions = opts, release_assigned = True\<rparr>"


text \<open>The pool of size two with both connections idle, and the world it lives in.\<close>

definition full_pool :: MysqlClientPool where
  "full_pool =
     \<lparr>connectionUrl = ''mysql://127.0.0.1:3306/db'', connectionOptions = eager_two,
      deferredStack = \<lparr>maxSize = 2, elements = [client_of eager_two 0, client_of eager_two 1]\<rparr>,
      connected = True\<rparr>"


text \<open>
  Pools of size three: one connection idle, and two connections idle; in both the
  remaining connections are with callers. Their three connections are open.
\<close>

definition one_idle_pool :: MysqlClientPool where
  "one_idle_pool =
     \<lparr>connectionUrl = ''mysql://127.0.0.1:3306/db'', connectionOptions = eager_three,
      deferredStack = \<lparr>maxSize = 3, elements = [client_of eager_three 0]\<rparr>,
      connected = True\<rparr>"

definition two_idle_pool :: MysqlClientPool where
  "two_idle_pool =
     \<lparr>connectionUrl = ''mysql://127.0.0.1:3306/db'', connectionOptions = eager_three,
      deferredStack = \<lparr>maxSize = 3, elements = [client_of eager_three 0, client_of eager_three 1]\<rparr>,
      connected = True\<rparr>"

definition three_open_world :: world where
  "three_open_world =
     \<lparr>next_ref = 3,
      connections = [0 \<mapsto> CONNECTED, 1 \<mapsto> CONNECTED, 2 \<mapsto> CONNECTED],
      trace = []\<rparr>"



text \<open>A push that fails for a reason of its own.\<close>

definition broken_push :: stack_push where
  "broken_push client stack = Inl (Error ''stack is frozen'')"



section \<open>Properties of the client facade\<close>

subsection \<open>Histories\<close>

lemma send_history: "send srv rq c = (r, c1) \<Longrightarrow> history c1 = history c @ [Called rq]"
  by (auto simp: send_def Let_def split: prod.splits)

lemma run_history: "history (snd (run srv p c)) = history c @ map Called (statements srv p c)"
  by (induction p arbitrary: c) (auto simp: send_history split: prod.splits)

lemma connected_client_pool: "priv_pool connected_client = Some \<lparr>constructed_size = 1\<rparr>"
  by (simp add: connected_client_def Client_connect_def new_Client_def empty_config_def)

lemma pop_idle_one: "pop_idle \<lparr>constructed_size = 1\<rparr> = Some (Inr idle_connection)"
  by (simp add: pop_idle_def)

subsection \<open>Transactions that succeed\<close>

text \<open>
  C1, as amended. When the pool hands out a connection \<open>c\<close>, \<^verbatim>\<open>BEGIN\<close> succeeds,
  the processor returns \<open>v\<close> without raising, and \<^verbatim>\<open>COMMIT\<close> succeeds, then
  \<^verbatim>\<open>transaction\<close> returns \<open>v\<close>, and the borrowed connection has executed
  \<^verbatim>\<open>BEGIN\<close>, then the statements of the processor, then \<^verbatim>\<open>COMMIT\<close>, in that
  order, before it went back to the pool.
\<close>

theorem transaction_success_path:
  assumes "priv_pool this = Some pool" and "pop pool = Some (Inr c)"
    and "execute srv ''BEGIN'' None c = (Inr r1, c1)"
    and "run srv processor c1 = (Inr v, c2)"
    and "execute srv ''COMMIT'' None c2 = (Inr r2, c3)"
  shows "Client_transaction pop srv this processor = Some (Inr v, Some (useConnection_finally c3))
       \<and> history (useConnection_finally c3) =
           history c @ [Called (Execute ''BEGIN'' None)]
             @ map Called (statements srv processor c1)
             @ [Called (Execute ''COMMIT'' None),
                if state c3 = CLOSED then RemoveFromPool else ReturnToPool]"
proof -
  have h1: "history c1 = history c @ [Called (Execute ''BEGIN'' None)]"
    using assms(3) by (simp add: execute_def send_history)
  have h2: "history c2 = history c1 @ map Called (statements srv processor c1)"
    using run_history [of srv processor c1] assms(4) by simp
  have h3: "history c3 = history c2 @ [Called (Execute ''COMMIT'' None)]"
    using assms(5) by (simp add: execute_def send_history)
  have "transaction_body srv processor c = (Inr v, c3)"
    using assms(3-5) by (simp add: transaction_body_def)
  then have "Client_transaction pop srv this processor =
      Some (Inr v, Some (useConnection_finally c3))"
    using assms(1,2) by (simp add: Client_transaction_def Client_useConnection_def)
  moreover have "history (useConnection_finally c3) =
      history c3 @ [if state c3 = CLOSED then RemoveFromPool else ReturnToPool]"
    by (simp add: useConnection_finally_def removeFromPool_def returnToPool_def)
  ultimately show ?thesis using h1 h2 h3 by simp
qed

text \<open>A transaction of one query on a healthy server.\<close>

theorem transaction_success_path_witness:
  "Client_transaction pop_idle healthy_server connected_client
     (Await (Query ''SELECT 1'' None) (\<lambda>r. Return (42::int)))
   = Some (Inr 42, Some \<lparr>state = CONNECTED, history =
       [Called (Execute ''BEGIN'' None), Called (Query ''SELECT 1'' None),
        Called (Execute ''COMMIT'' None), ReturnToPool]\<rparr>)"
proof -
  let ?c1 = "\<lparr>state = CONNECTED, history = [Called (Execute ''BEGIN'' None)]\<rparr>"
  let ?c2 = "\<lparr>state = CONNECTED, history =
      [Called (Execute ''BEGIN'' None), Called (Query ''SELECT 1'' None)]\<rparr>"
  let ?c3 = "\<lparr>state = CONNECTED, history =
      [Called (Execute ''BEGIN'' None), Called (Query ''SELECT 1'' None),
       Called (Execute ''COMMIT'' None)]\<rparr>"
  have b: "execute healthy_server ''BEGIN'' None idle_connection = (Inr (ExecuteResult []), ?c1)"
    by (simp add: execute_def send_def healthy_server_def idle_connection_def)
  have c: "run healthy_server (Await (Query ''SELECT 1'' None) (\<lambda>r. Return (42::int))) ?c1
      = (Inr 42, ?c2)"
    by (simp add: send_def healthy_server_def)
  have d: "execute healthy_server ''COMMIT'' None ?c2 = (Inr (ExecuteResult []), ?c3)"
    by (simp add: execute_def send_def healthy_server_def)
  show ?thesis
    using transaction_success_path [where pop = pop_idle and srv = healthy_server,
        OF connected_client_pool pop_idle_one b c d]
    by (simp add: useConnection_finally_def returnToPool_def)
qed

text \<open>
  Without the condition on \<^verbatim>\<open>COMMIT\<close> the statement fails: the processor returns 42
  without raising, the server refuses \<^verbatim>\<open>COMMIT\<close>, and \<^verbatim>\<open>transaction\<close> rolls back
  and throws the error of the \<^verbatim>\<open>COMMIT\<close>.
\<close>

theorem transaction_commit_failure_counterexample:
  "run commit_failing_server (Return (42::int))
       \<lparr>state = CONNECTED, history = [Called (Execute ''BEGIN'' None)]\<rparr>
     = (Inr 42, \<lparr>state = CONNECTED, history = [Called (Execute ''BEGIN'' None)]\<rparr>)
   \<and> Client_transaction pop_idle commit_failing_server connected_client (Return (42::int))
     = Some (Inl (Error ''Deadlock found when trying to get lock''),
         Some \<lparr>state = CONNECTED, history =
           [Called (Execute ''BEGIN'' None), Called (Execute ''COMMIT'' None),
            LoggerInfo ''ROLLBACK: Deadlock found when trying to get lock'',
            Called (Execute ''ROLLBACK'' None), ReturnToPool]\<rparr>)
   \<and> map_option fst
       (Client_transaction pop_idle commit_failing_server connected_client (Return (42::int)))
     \<noteq> Some (Inr 42)"
  by (simp add: Client_transaction_def Client_useConnection_def connected_client_pool
      pop_idle_def idle_connection_def transaction_body_def transaction_catch_def
      execute_def send_def commit_failing_server_def logger_info_def
      useConnection_finally_def returnToPool_def)

subsection \<open>Transactions whose processor raises\<close>

text \<open>
  C2, as amended. Let the processor raise \<open>e\<close> on the borrowed connection, leaving it as
  \<open>c2\<close>. If \<open>c2\<close> is still Connected, \<^verbatim>\<open>transaction\<close> logs the error and executes
  \<^verbatim>\<open>ROLLBACK\<close>, and when that \<^verbatim>\<open>ROLLBACK\<close> succeeds it throws \<open>e\<close> unchanged.
  If \<open>c2\<close> is no longer Connected, nothing more is executed on the connection before it
  is cleaned up (no \<^verbatim>\<open>ROLLBACK\<close>), and \<open>e\<close> is thrown unchanged.
\<close>

theorem transaction_failure_path:
  assumes "priv_pool this = Some pool" and "pop pool = Some (Inr c)"
    and "execute srv ''BEGIN'' None c = (Inr r1, c1)"
    and "run srv processor c1 = (Inl e, c2)"
  shows "(state c2 = CONNECTED \<longrightarrow>
            map_option snd (Client_transaction pop srv this processor) =
              Some (Some (useConnection_finally
                (snd (execute srv ''ROLLBACK'' None
                        (logger_info (''ROLLBACK: '' @ message e) c2)))))
          \<and> history (snd (execute srv ''ROLLBACK'' None
                        (logger_info (''ROLLBACK: '' @ message e) c2))) =
              history c2 @ [LoggerInfo (''ROLLBACK: '' @ message e),
                            Called (Execute ''ROLLBACK'' None)]
          \<and> (\<forall>r2. fst (execute srv ''ROLLBACK'' None
                        (logger_info (''ROLLBACK: '' @ message e) c2)) = Inr r2
                \<longrightarrow> map_option fst (Client_transaction pop srv this processor) = Some (Inl e)))
       \<and> (state c2 \<noteq> CONNECTED \<longrightarrow>
            Client_transaction pop srv this processor =
              Some (Inl e, Some (useConnection_finally c2))
          \<and> history (useConnection_finally c2) =
              history c2 @ [if state c2 = CLOSED then RemoveFromPool else ReturnToPool])"
proof -
  let ?rb = "execute srv ''ROLLBACK'' None (logger_info (''ROLLBACK: '' @ message e) c2)"
  have body: "transaction_body srv processor c = transaction_catch srv e c2"
    using assms(3,4) by (simp add: transaction_body_def)
  have tx: "Client_transaction pop srv this processor =
      Some (fst (transaction_catch srv e c2 :: (error + 'a) \<times> PoolConnection),
            Some (useConnection_finally
              (snd (transaction_catch srv e c2 :: (error + 'a) \<times> PoolConnection))))"
    using assms(1,2) body
    by (simp add: Client_transaction_def Client_useConnection_def split: prod.splits)
  have hist: "history (snd ?rb) =
      history c2 @ [LoggerInfo (''ROLLBACK: '' @ message e), Called (Execute ''ROLLBACK'' None)]"
    using send_history [of srv "Execute ''ROLLBACK'' None"
        "logger_info (''ROLLBACK: '' @ message e) c2" "fst ?rb" "snd ?rb"]
    by (simp add: execute_def logger_info_def)
  have fin: "history (useConnection_finally c2) =
      history c2 @ [if state c2 = CLOSED then RemoveFromPool else ReturnToPool]"
    by (simp add: useConnection_finally_def removeFromPool_def returnToPool_def)
  show ?thesis
    unfolding tx using hist fin
    by (auto simp: transaction_catch_def split: prod.splits sum.splits)
qed

text \<open>
  A processor that throws on a healthy server is rolled back; a processor whose
  statement loses the connection is not.
\<close>

theorem transaction_failure_path_witness:
  "Client_transaction pop_idle healthy_server connected_client
       (Throw (Error ''boom'') :: int processor)
     = Some (Inl (Error ''boom''), Some \<lparr>state = CONNECTED, history =
         [Called (Execute ''BEGIN'' None), LoggerInfo ''ROLLBACK: boom'',
          Called (Execute ''ROLLBACK'' None), ReturnToPool]\<rparr>)
   \<and> Client_transaction pop_idle dropping_server connected_client insert_row
     = Some (Inl (Error ''Connection reset by peer''), Some \<lparr>state = CLOSED, history =
         [Called (Execute ''BEGIN'' None), Called (Execute ''INSERT INTO t VALUES (1)'' None),
          RemoveFromPool]\<rparr>)"
proof -
  let ?c1 = "\<lparr>state = CONNECTED, history = [Called (Execute ''BEGIN'' None)]\<rparr>"
  let ?d2 = "\<lparr>state = CLOSED, history = [Called (Execute ''BEGIN'' None),
      Called (Execute ''INSERT INTO t VALUES (1)'' None)]\<rparr>"
  have b: "execute healthy_server ''BEGIN'' None idle_connection = (Inr (ExecuteResult []), ?c1)"
    by (simp add: execute_def send_def healthy_server_def idle_connection_def)
  have c: "run healthy_server (Throw (Error ''boom'') :: int processor) ?c1
      = (Inl (Error ''boom''), ?c1)"
    by simp
  have b': "execute dropping_server ''BEGIN'' None idle_connection = (Inr (ExecuteResult []), ?c1)"
    by (simp add: execute_def send_def dropping_server_def idle_connection_def)
  have c': "run dropping_server insert_row ?c1 = (Inl (Error ''Connection reset by peer''), ?d2)"
    by (simp add: insert_row_def send_def dropping_server_def)
  have "Client_transaction pop_idle healthy_server connected_client
       (Throw (Error ''boom'') :: int processor)
     = Some (Inl (Error ''boom''), Some \<lparr>state = CONNECTED, history =
         [Called (Execute ''BEGIN'' None), LoggerInfo ''ROLLBACK: boom'',
          Called (Execute ''ROLLBACK'' None), ReturnToPool]\<rparr>)"
    using transaction_failure_path [where pop = pop_idle and srv = healthy_server,
        OF connected_client_pool pop_idle_one b c]
    by (cases "Client_transaction pop_idle healthy_server connected_client
          (Throw (Error ''boom'') :: int processor)")
       (auto simp: execute_def send_def healthy_server_def logger_info_def
          useConnection_finally_def returnToPool_def)
  moreover have "Client_transaction pop_idle dropping_server connected_client insert_row
     = Some (Inl (Error ''Connection reset by peer''), Some \<lparr>state = CLOSED, history =
         [Called (Execute ''BEGIN'' None), Called (Execute ''INSERT INTO t VALUES (1)'' None),
          RemoveFromPool]\<rparr>)"
    using transaction_failure_path [where pop = pop_idle and srv = dropping_server,
        OF connected_client_pool pop_idle_one b' c']
    by (simp add: useConnection_finally_def removeFromPool_def)
  ultimately show ?thesis by simp
qed

text \<open>
  Without the condition on \<^verbatim>\<open>ROLLBACK\<close> the statement fails: the processor throws
  \<^verbatim>\<open>boom\<close> on a connection that is still Connected, \<^verbatim>\<open>ROLLBACK\<close> is executed and
  fails, and the caller receives the error of the \<^verbatim>\<open>ROLLBACK\<close>.
\<close>

theorem transaction_rollback_masks_counterexample:
  "run rollback_failing_server (Throw (Error ''boom'') :: int processor)
       \<lparr>state = CONNECTED, history = [Called (Execute ''BEGIN'' None)]\<rparr>
     = (Inl (Error ''boom''), \<lparr>state = CONNECTED, history = [Called (Execute ''BEGIN'' None)]\<rparr>)
   \<and> Client_transaction pop_idle rollback_failing_server connected_client
       (Throw (Error ''boom'') :: int processor)
     = Some (Inl (MysqlError ''Lost connection to MySQL server during query''),
         Some \<lparr>state = CLOSED, history =
           [Called (Execute ''BEGIN'' None), LoggerInfo ''ROLLBACK: boom'',
            Called (Execute ''ROLLBACK'' None), RemoveFromPool]\<rparr>)
   \<and> map_option fst (Client_transaction pop_idle rollback_failing_server connected_client
       (Throw (Error ''boom'') :: int processor))
     \<noteq> Some (Inl (Error ''boom''))"
  by (simp add: Client_transaction_def Client_useConnection_def connected_client_pool
      pop_idle_def idle_connection_def transaction_body_def transaction_catch_def
      execute_def send_def rollback_failing_server_def logger_info_def
      useConnection_finally_def removeFromPool_def)

subsection \<open>A rollback that fails\<close>

text \<open>
  C3, as amended. When the processor raises \<open>e\<close> on a connection that is still
  Connected and the \<^verbatim>\<open>ROLLBACK\<close> that follows fails with \<open>e2\<close>, nothing catches
  \<open>e2\<close>: it is the error \<^verbatim>\<open>transaction\<close> throws, in place of \<open>e\<close>, whose message
  has gone to the logger before the \<^verbatim>\<open>ROLLBACK\<close>.
\<close>

theorem transaction_rollback_failure:
  assumes "priv_pool this = Some pool" and "pop pool = Some (Inr c)"
    and "execute srv ''BEGIN'' None c = (Inr r1, c1)"
    and "run srv processor c1 = (Inl e, c2)"
    and "state c2 = CONNECTED"
    and "execute srv ''ROLLBACK'' None (logger_info (''ROLLBACK: '' @ message e) c2)
           = (Inl e2, c3)"
  shows "Client_transaction pop srv this processor =
           Some (Inl e2, Some (useConnection_finally c3))
       \<and> history c3 = history c2 @ [LoggerInfo (''ROLLBACK: '' @ message e),
                                     Called (Execute ''ROLLBACK'' None)]"
proof
  have "transaction_body srv processor c = (Inl e2, c3)"
    using assms(3-6) by (simp add: transaction_body_def transaction_catch_def)
  then show "Client_transaction pop srv this processor =
      Some (Inl e2, Some (useConnection_finally c3))"
    using assms(1,2) by (simp add: Client_transaction_def Client_useConnection_def)
  show "history c3 = history c2 @ [LoggerInfo (''ROLLBACK: '' @ message e),
                                     Called (Execute ''ROLLBACK'' None)]"
    using assms(6) send_history [of srv "Execute ''ROLLBACK'' None"
        "logger_info (''ROLLBACK: '' @ message e) c2" "Inl e2" c3]
    by (simp add: execute_def logger_info_def)
qed

text \<open>The insertion is rejected as a duplicate, and the rollback times out.\<close>

theorem transaction_rollback_failure_witness:
  "Client_transaction pop_idle strict_server connected_client insert_row
     = Some (Inl (Error ''Lock wait timeout exceeded''), Some \<lparr>state = CONNECTED, history =
         [Called (Execute ''BEGIN'' None), Called (Execute ''INSERT INTO t VALUES (1)'' None),
          LoggerInfo ''ROLLBACK: Duplicate entry'', Called (Execute ''ROLLBACK'' None),
          ReturnToPool]\<rparr>)"
proof -
  let ?c1 = "\<lparr>state = CONNECTED, history = [Called (Execute ''BEGIN'' None)]\<rparr>"
  let ?c2 = "\<lparr>state = CONNECTED, history = [Called (Execute ''BEGIN'' None),
      Called (Execute ''INSERT INTO t VALUES (1)'' None)]\<rparr>"
  let ?c3 = "\<lparr>state = CONNECTED, history = [Called (Execute ''BEGIN'' None),
      Called (Execute ''INSERT INTO t VALUES (1)'' None),
      LoggerInfo ''ROLLBACK: Duplicate entry'', Called (Execute ''ROLLBACK'' None)]\<rparr>"
  have b: "execute strict_server ''BEGIN'' None idle_connection = (Inr (ExecuteResult []), ?c1)"
    by (simp add: execute_def send_def strict_server_def idle_connection_def)
  have c: "run strict_server insert_row ?c1 = (Inl (Error ''Duplicate entry''), ?c2)"
    by (simp add: insert_row_def send_def strict_server_def)
  have d: "state ?c2 = CONNECTED" by simp
  have e: "execute strict_server ''ROLLBACK'' None
      (logger_info (''ROLLBACK: '' @ message (Error ''Duplicate entry'')) ?c2)
        = (Inl (Error ''Lock wait timeout exceeded''), ?c3)"
    by (simp add: execute_def send_def strict_server_def logger_info_def)
  show ?thesis
    using transaction_rollback_failure [where pop = pop_idle and srv = strict_server,
        OF connected_client_pool pop_idle_one b c d e]
    by (simp add: useConnection_finally_def returnToPool_def)
qed

text \<open>
  The failure of the rollback is not swallowed: the processor's error is
  \<^verbatim>\<open>Duplicate entry\<close>, and the caller receives \<^verbatim>\<open>Lock wait timeout exceeded\<close>, the
  error of the \<^verbatim>\<open>ROLLBACK\<close>.
\<close>

theorem rollback_error_replaces_original_counterexample:
  "run strict_server insert_row
       \<lparr>state = CONNECTED, history = [Called (Execute ''BEGIN'' None)]\<rparr>
     = (Inl (Error ''Duplicate entry''), \<lparr>state = CONNECTED, history =
         [Called (Execute ''BEGIN'' None), Called (Execute ''INSERT INTO t VALUES (1)'' None)]\<rparr>)
   \<and> map_option fst (Client_transaction pop_idle strict_server connected_client insert_row)
     = Some (Inl (Error ''Lock wait timeout exceeded''))
   \<and> map_option fst (Client_transaction pop_idle strict_server connected_client insert_row)
     \<noteq> Some (Inl (Error ''Duplicate entry''))"
  by (simp add: Client_transaction_def Client_useConnection_def connected_client_pool
      pop_idle_def idle_connection_def transaction_body_def transaction_catch_def
      execute_def send_def strict_server_def logger_info_def insert_row_def
      useConnection_finally_def returnToPool_def)

subsection \<open>Every borrow is cleaned up\<close>

text \<open>
  C4. Whenever the facade has borrowed a connection \<open>c\<close>, whatever the work returns or
  raises on it, the connection as the work left it is removed from the pool if its
  state is Closed and returned to the pool otherwise, and the outcome of the work is the
  outcome of the call. This holds for \<^verbatim>\<open>useConnection\<close> with any work, and for
  \<^verbatim>\<open>query\<close>, \<^verbatim>\<open>execute\<close> and \<^verbatim>\<open>transaction\<close>, which all go through it.
\<close>

theorem useConnection_cleanup:
  assumes "priv_pool this = Some pool" and "pop pool = Some (Inr c)"
  shows "Client_useConnection pop this fn =
           Some (fst (fn c), Some ((snd (fn c))\<lparr>history := history (snd (fn c)) @
             [if state (snd (fn c)) = CLOSED then RemoveFromPool else ReturnToPool]\<rparr>))
       \<and> Client_query pop srv this sql ps =
           Some (fst (query srv sql ps c), Some ((snd (query srv sql ps c))\<lparr>history :=
             history (snd (query srv sql ps c)) @
             [if state (snd (query srv sql ps c)) = CLOSED
              then RemoveFromPool else ReturnToPool]\<rparr>))
       \<and> Client_execute pop srv this sql ps =
           Some (fst (execute srv sql ps c), Some ((snd (execute srv sql ps c))\<lparr>history :=
             history (snd (execute srv sql ps c)) @
             [if state (snd (execute srv sql ps c)) = CLOSED
              then RemoveFromPool else ReturnToPool]\<rparr>))
       \<and> Client_transaction pop srv this processor =
           Some (fst (transaction_body srv processor c),
             Some ((snd (transaction_body srv processor c))\<lparr>history :=
               history (snd (transaction_body srv processor c)) @
               [if state (snd (transaction_body srv processor c)) = CLOSED
                then RemoveFromPool else ReturnToPool]\<rparr>))"
proof -
  have u: "Client_useConnection pop this f =
           Some (fst (f c), Some ((snd (f c))\<lparr>history := history (snd (f c)) @
             [if state (snd (f c)) = CLOSED then RemoveFromPool else ReturnToPool]\<rparr>))"
    for f :: "PoolConnection \<Rightarrow> (error + 'z) \<times> PoolConnection"
    using assms
    by (simp add: Client_useConnection_def useConnection_finally_def removeFromPool_def
        returnToPool_def split: prod.splits)
  show ?thesis
    unfolding Client_query_def Client_execute_def Client_transaction_def
    by (intro conjI u)
qed

text \<open>
  A query that succeeds returns its connection; an execute that loses the connection
  has it removed.
\<close>

theorem useConnection_cleanup_witness:
  "Client_query pop_idle healthy_server connected_client ''SELECT 1'' None
     = Some (Inr (ExecuteResult []), Some \<lparr>state = CONNECTED, history =
         [Called (Query ''SELECT 1'' None), ReturnToPool]\<rparr>)
   \<and> Client_execute pop_idle dropping_server connected_client ''DELETE FROM t'' None
     = Some (Inl (Error ''Connection reset by peer''), Some \<lparr>state = CLOSED, history =
         [Called (Execute ''DELETE FROM t'' None), RemoveFromPool]\<rparr>)"
  using useConnection_cleanup [where pop = pop_idle and srv = healthy_server
        and sql = "''SELECT 1''" and ps = None
        and fn = "\<lambda>connection. (Inr (), connection)" and processor = "Return ()",
        OF connected_client_pool pop_idle_one]
    useConnection_cleanup [where pop = pop_idle and srv = dropping_server
        and sql = "''DELETE FROM t''" and ps = None
        and fn = "\<lambda>connection. (Inr (), connection)" and processor = "Return ()",
        OF connected_client_pool pop_idle_one]
  by (simp add: query_def execute_def send_def healthy_server_def dropping_server_def
      idle_connection_def)

subsection \<open>The size of the pool that \<^verbatim>\<open>connect\<close> constructs\<close>

text \<open>
  C9. When the configuration passed to \<^verbatim>\<open>connect\<close> sets \<open>poolSize\<close> to 0, the
  configuration the client keeps has \<open>poolSize\<close> 0, and the pool is constructed with
  size 10.
\<close>

theorem connect_poolSize_zero:
  assumes "poolSize cfg = Val 0"
  shows "poolSize (config (Client_connect this cfg)) = Val 0
       \<and> priv_pool (Client_connect this cfg) = Some \<lparr>constructed_size = 10\<rparr>"
  using assms by (simp add: Client_connect_def)

text \<open>A configuration that sets nothing but \<open>poolSize\<close>.\<close>

theorem connect_poolSize_zero_witness:
  "poolSize (config (Client_connect new_Client (empty_config\<lparr>poolSize := Val 0\<rparr>))) = Val 0
   \<and> priv_pool (Client_connect new_Client (empty_config\<lparr>poolSize := Val 0\<rparr>))
       = Some \<lparr>constructed_size = 10\<rparr>"
  using connect_poolSize_zero [of "empty_config\<lparr>poolSize := Val 0\<rparr>" new_Client]
  by (simp add: empty_config_def)


section \<open>Properties of the connection pool\<close>

subsection \<open>Releasing a client\<close>

text \<open>
  C5. \<^verbatim>\<open>release(client)\<close> dispatches the release event first: a listener finds the
  idle collection as it was before the push, and the event is in the trace whatever the
  push does. If the push succeeds the client is idle. If the push throws the
  \<^verbatim>\<open>SqlxError\<close> with the message \<^verbatim>\<open>Max pool size reached\<close>, the pool logs the
  message, closes the client's connection and throws that error. If the push throws
  anything else, that error is thrown unchanged and the connection is not touched. This
  holds for every behaviour of \<^verbatim>\<open>push\<close>; the push of the idle collection throws the
  capacity error exactly when the insertion would exceed \<open>maxSize\<close>.
\<close>

theorem release_event_then_push:
  "(\<forall>es. push client (deferredStack this) = Inr es \<longrightarrow>
      MysqlClientPool_release push this client w =
        (Inr (),
         this\<lparr>deferredStack := (deferredStack this)\<lparr>elements := es\<rparr>\<rparr>,
         w\<lparr>trace := trace w @
             [Dispatched (MysqlPoolConnectionReleaseEvent client)
                (elements (deferredStack this))]\<rparr>))
   \<and> (push client (deferredStack this) = Inl (SqlxError ''Max pool size reached'') \<longrightarrow>
      MysqlClientPool_release push this client w =
        (Inl (SqlxError ''Max pool size reached''),
         this,
         w\<lparr>connections := (connections w)(connection client \<mapsto> CLOSED),
           trace := trace w @
             [Dispatched (MysqlPoolConnectionReleaseEvent client)
                (elements (deferredStack this)),
              LoggerDebug ''Max pool size reached'',
              ConnectionClose (connection client)]\<rparr>))
   \<and> (\<forall>e. push client (deferredStack this) = Inl e
          \<and> e \<noteq> SqlxError ''Max pool size reached'' \<longrightarrow>
      MysqlClientPool_release push this client w =
        (Inl e,
         this,
         w\<lparr>trace := trace w @
             [Dispatched (MysqlPoolConnectionReleaseEvent client)
                (elements (deferredStack this))]\<rparr>))
   \<and> (SqlxDeferredStack_push client (deferredStack this)
        = Inl (SqlxError ''Max pool size reached'')
      \<longleftrightarrow> maxSize (deferredStack this) < length (elements (deferredStack this)) + 1)"
proof (intro conjI allI impI)
  fix e
  assume "push client (deferredStack this) = Inl e \<and> e \<noteq> SqlxError ''Max pool size reached''"
  then show "MysqlClientPool_release push this client w =
        (Inl e, this,
         w\<lparr>trace := trace w @
             [Dispatched (MysqlPoolConnectionReleaseEvent client)
                (elements (deferredStack this))]\<rparr>)"
    by (cases e) (auto simp: MysqlClientPool_release_def dispatchEvent_def)
next
  show "SqlxDeferredStack_push client (deferredStack this)
        = Inl (SqlxError ''Max pool size reached'')
      \<longleftrightarrow> maxSize (deferredStack this) < length (elements (deferredStack this)) + 1"
    by (auto simp: SqlxDeferredStack_push_def)
qed (simp_all add: MysqlClientPool_release_def dispatchEvent_def set_elements_def
       connection_close_def logger_debug_def)

text \<open>
  A release into a pool with room, a release into a full pool, and a release whose push
  fails for another reason.
\<close>

theorem release_event_then_push_witness:
  "MysqlClientPool_release SqlxDeferredStack_push two_idle_pool (client_of eager_three 2)
       three_open_world
     = (Inr (),
        two_idle_pool\<lparr>deferredStack := \<lparr>maxSize = 3, elements =
           [client_of eager_three 0, client_of eager_three 1, client_of eager_three 2]\<rparr>\<rparr>,
        three_open_world\<lparr>trace :=
           [Dispatched (MysqlPoolConnectionReleaseEvent (client_of eager_three 2))
              [client_of eager_three 0, client_of eager_three 1]]\<rparr>)
   \<and> MysqlClientPool_release SqlxDeferredStack_push full_pool (client_of eager_two 2)
       three_open_world
     = (Inl (SqlxError ''Max pool size reached''),
        full_pool,
        three_open_world\<lparr>connections := (connections three_open_world)(2 \<mapsto> CLOSED),
          trace :=
           [Dispatched (MysqlPoolConnectionReleaseEvent (client_of eager_two 2))
              [client_of eager_two 0, client_of eager_two 1],
            LoggerDebug ''Max pool size reached'',
            ConnectionClose 2]\<rparr>)
   \<and> MysqlClientPool_release broken_push two_idle_pool (client_of eager_three 2)
       three_open_world
     = (Inl (Error ''stack is frozen''),
        two_idle_pool,
        three_open_world\<lparr>trace :=
           [Dispatched (MysqlPoolConnectionReleaseEvent (client_of eager_three 2))
              [client_of eager_three 0, client_of eager_three 1]]\<rparr>)"
  using release_event_then_push [where push = SqlxDeferredStack_push
        and client = "client_of eager_three 2" and this = two_idle_pool and w = three_open_world]
    release_event_then_push [where push = SqlxDeferredStack_push
        and client = "client_of eager_two 2" and this = full_pool and w = three_open_world]
    release_event_then_push [where push = broken_push
        and client = "client_of eager_three 2" and this = two_idle_pool and w = three_open_world]
  by (simp add: SqlxDeferredStack_push_def broken_push_def two_idle_pool_def full_pool_def
      three_open_world_def client_of_def)

subsection \<open>Acquiring a client\<close>

text \<open>
  C6. Take a pool with room for two more idle connections and release \<open>a\<close> and then
  \<open>b\<close> into it. The next \<^verbatim>\<open>acquire\<close> returns \<open>b\<close>, the connection released last,
  and the one after it returns \<open>a\<close>. The acquire event is dispatched after the removal: a
  listener finds the idle collection without the acquired connection (for \<open>b\<close> distinct
  from \<open>a\<close> and from the connections that were idle before).
\<close>

theorem acquire_lifo:
  fixes this :: MysqlClientPool and w :: world and a b :: MysqlPoolClient
  defines "es \<equiv> elements (deferredStack this)"
  defines "p1 \<equiv> this\<lparr>deferredStack := (deferredStack this)\<lparr>elements := es @ [a]\<rparr>\<rparr>"
  defines "p2 \<equiv> this\<lparr>deferredStack := (deferredStack this)\<lparr>elements := es @ [a, b]\<rparr>\<rparr>"
  defines "w1 \<equiv> w\<lparr>trace := trace w @ [Dispatched (MysqlPoolConnectionReleaseEvent a) es]\<rparr>"
  defines "w2 \<equiv> w\<lparr>trace := trace w @ [Dispatched (MysqlPoolConnectionReleaseEvent a) es,
                     Dispatched (MysqlPoolConnectionReleaseEvent b) (es @ [a])]\<rparr>"
  assumes "length (elements (deferredStack this)) + 2 \<le> maxSize (deferredStack this)"
  shows "MysqlClientPool_release SqlxDeferredStack_push this a w = (Inr (), p1, w1)
    \<and> MysqlClientPool_release SqlxDeferredStack_push p1 b w1 = (Inr (), p2, w2)
    \<and> MysqlClientPool_acquire SqlxDeferredStack_pop p2 w2 =
        Some (Inr b, p1,
              w2\<lparr>trace := trace w2 @
                 [Dispatched (MysqlPoolConnectionAcquireEvent b) (es @ [a])]\<rparr>)
    \<and> (a \<noteq> b \<and> b \<notin> set es \<longrightarrow> b \<notin> set (es @ [a]))
    \<and> MysqlClientPool_acquire SqlxDeferredStack_pop p1 w2 =
        Some (Inr a, this,
              w2\<lparr>trace := trace w2 @ [Dispatched (MysqlPoolConnectionAcquireEvent a) es]\<rparr>)"
  unfolding p1_def p2_def w1_def w2_def es_def
  using assms(6)
  by (auto simp: MysqlClientPool_release_def MysqlClientPool_acquire_def
      SqlxDeferredStack_push_def SqlxDeferredStack_pop_def dispatchEvent_def set_elements_def
      Let_def butlast_append)

text \<open>
  Connection 0 is idle; connections 1 and 2 are released in this order; \<^verbatim>\<open>acquire\<close>
  returns connection 2, and its event shows connections 0 and 1 idle.
\<close>

theorem acquire_lifo_witness:
  "MysqlClientPool_acquire SqlxDeferredStack_pop
     (one_idle_pool\<lparr>deferredStack := \<lparr>maxSize = 3, elements =
        [client_of eager_three 0, client_of eager_three 1, client_of eager_three 2]\<rparr>\<rparr>)
     (three_open_world\<lparr>trace :=
        [Dispatched (MysqlPoolConnectionReleaseEvent (client_of eager_three 1))
           [client_of eager_three 0],
         Dispatched (MysqlPoolConnectionReleaseEvent (client_of eager_three 2))
           [client_of eager_three 0, client_of eager_three 1]]\<rparr>)
   = Some (Inr (client_of eager_three 2),
       one_idle_pool\<lparr>deferredStack := \<lparr>maxSize = 3, elements =
          [client_of eager_three 0, client_of eager_three 1]\<rparr>\<rparr>,
       three_open_world\<lparr>trace :=
        [Dispatched (MysqlPoolConnectionReleaseEvent (client_of eager_three 1))
           [client_of eager_three 0],
         Dispatched (MysqlPoolConnectionReleaseEvent (client_of eager_three 2))
           [client_of eager_three 0, client_of eager_three 1],
         Dispatched (MysqlPoolConnectionAcquireEvent (client_of eager_three 2))
           [client_of eager_three 0, client_of eager_three 1]]\<rparr>)"
  using acquire_lifo [where this = one_idle_pool and a = "client_of eager_three 1"
      and b = "client_of eager_three 2" and w = three_open_world]
  by (simp add: one_idle_pool_def three_open_world_def client_of_def)

subsection \<open>Closing the pool\<close>

lemma close_loop_trace:
  "trace (close_loop this cs w) =
     trace w @ concat (map (\<lambda>client.
        [Dispatched (MysqlConnectionCloseEvent client) (elements (deferredStack this)),
         ConnectionClose (connection client)]) cs)"
  by (induction cs arbitrary: w) (simp_all add: connection_close_def dispatchEvent_def)

lemma close_loop_connections:
  "connections (close_loop this cs w) i =
     (if i \<in> connection ` set cs then Some CLOSED else connections w i)"
  by (induction cs arbitrary: w) (auto simp: connection_close_def dispatchEvent_def)

text \<open>
  C7. \<^verbatim>\<open>close()\<close> leaves the pool as it was except that \<open>connected\<close> is false. For
  each idle connection, in the order of the idle collection, it dispatches a close event
  and then closes the connection, and it does nothing else; every idle connection ends
  Closed, and every connection that is not in the idle collection, such as one a caller
  has checked out, is in the state it was in before.
\<close>

theorem close_closes_idle_only:
  "fst (MysqlClientPool_close this w) = this\<lparr>connected := False\<rparr>
   \<and> trace (snd (MysqlClientPool_close this w)) =
       trace w @ concat (map (\<lambda>client.
          [Dispatched (MysqlConnectionCloseEvent client) (elements (deferredStack this)),
           ConnectionClose (connection client)]) (elements (deferredStack this)))
   \<and> (\<forall>client \<in> set (elements (deferredStack this)).
         connections (snd (MysqlClientPool_close this w)) (connection client) = Some CLOSED)
   \<and> (\<forall>i. i \<notin> connection ` set (elements (deferredStack this)) \<longrightarrow>
         connections (snd (MysqlClientPool_close this w)) i = connections w i)"
  by (simp add: MysqlClientPool_close_def Let_def close_loop_trace close_loop_connections)

text \<open>
  A pool with connections 0 and 1 idle and connection 2 checked out: 0 and 1 are closed,
  2 stays Connected.
\<close>

theorem close_closes_idle_only_witness:
  "connected (fst (MysqlClientPool_close two_idle_pool three_open_world)) = False
   \<and> trace (snd (MysqlClientPool_close two_idle_pool three_open_world)) =
       [Dispatched (MysqlConnectionCloseEvent (client_of eager_three 0))
          [client_of eager_three 0, client_of eager_three 1],
        ConnectionClose 0,
        Dispatched (MysqlConnectionCloseEvent (client_of eager_three 1))
          [client_of eager_three 0, client_of eager_three 1],
        ConnectionClose 1]
   \<and> connections (snd (MysqlClientPool_close two_idle_pool three_open_world)) 0 = Some CLOSED
   \<and> connections (snd (MysqlClientPool_close two_idle_pool three_open_world)) 1 = Some CLOSED
   \<and> connections (snd (MysqlClientPool_close two_idle_pool three_open_world)) 2 = Some CONNECTED"
  using close_closes_idle_only [of two_idle_pool three_open_world]
  by (simp add: two_idle_pool_def three_open_world_def client_of_def)


subsection \<open>Provisioning the pool\<close>


lemma set_elements_simps [simp]:
  "elements (deferredStack (set_elements es this)) = es"
  "maxSize (deferredStack (set_elements es this)) = maxSize (deferredStack this)"
  "connectionOptions (set_elements es this) = connectionOptions this"
  "connected (set_elements es this) = connected this"
  "connectionUrl (set_elements es this) = connectionUrl this"
  "set_elements es (set_elements es' this) = set_elements es this"
  "set_elements (elements (deferredStack this)) this = this"
  by (simp_all add: set_elements_def)






subsection \<open>A client that no pool has set up\<close>

text \<open>
  C10. A client that comes from the constructor has the \<^verbatim>\<open>release\<close> of the class.
  For every \<^verbatim>\<open>MysqlPoolClient\<close> on which the pool's \<^verbatim>\<open>connect()\<close> has not
  assigned \<^verbatim>\<open>release\<close>, \<^verbatim>\<open>release()\<close> and \<^verbatim>\<open>Symbol.asyncDispose\<close> throw the
  error \<^verbatim>\<open>Method not implemented.\<close> and leave the pool and the world as they were;
  on a client that \<^verbatim>\<open>connect()\<close> has set up, \<^verbatim>\<open>release()\<close> is the pool's
  \<^verbatim>\<open>release\<close> of that client.
\<close>

theorem unassigned_release_not_implemented:
  "\<not> release_assigned (new_MysqlPoolClient conn opts)
   \<and> (\<not> release_assigned client \<longrightarrow>
        MysqlPoolClient_release push client pool w =
          (Inl (Error ''Method not implemented.''), pool, w)
      \<and> MysqlPoolClient_asyncDispose push client pool w =
          (Inl (Error ''Method not implemented.''), pool, w))
   \<and> (release_assigned client \<longrightarrow>
        MysqlPoolClient_release push client pool w = MysqlClientPool_release push pool client w)"
  by (simp add: MysqlPoolClient_release_def MysqlPoolClient_asyncDispose_def
      new_MysqlPoolClient_def)

text \<open>
  A client constructed by hand around connection 2 throws; the client the pool made
  for connection 2 goes back to the idle collection.
\<close>

theorem unassigned_release_not_implemented_witness:
  "MysqlPoolClient_release SqlxDeferredStack_push (new_MysqlPoolClient 2 eager_three)
       two_idle_pool three_open_world
     = (Inl (Error ''Method not implemented.''), two_idle_pool, three_open_world)
   \<and> MysqlPoolClient_asyncDispose SqlxDeferredStack_push (new_MysqlPoolClient 2 eager_three)
       two_idle_pool three_open_world
     = (Inl (Error ''Method not implemented.''), two_idle_pool, three_open_world)
   \<and> fst (MysqlPoolClient_release SqlxDeferredStack_push (client_of eager_three 2)
       two_idle_pool three_open_world) = Inr ()"
  using unassigned_release_not_implemented [where client = "new_MysqlPoolClient 2 eager_three"
      and push = SqlxDeferredStack_push and pool = two_idle_pool and w = three_open_world]
    unassigned_release_not_implemented [where client = "client_of eager_three 2"
      and push = SqlxDeferredStack_push and pool = two_idle_pool and w = three_open_world]
  by (simp add: new_MysqlPoolClient_def client_of_def MysqlClientPool_release_def
      SqlxDeferredStack_push_def two_idle_pool_def)

end
